theory Spec2Isabelle
  imports Complex_Main "HOL-Library.Multiset"
begin

section \<open>JavaScript numbers and dates\<close>

text \<open>
  A JavaScript \<^verbatim>\<open>number\<close> is NaN, one of the two infinities, or a finite value.
  Finite values are modelled as real numbers with exact arithmetic: rounding to the
  nearest double, overflow to an infinity and the sign of zero are not modelled.
  The operations below are those of ECMAScript (\<^verbatim>\<open>+ - * / < <=\<close>) on this domain.
\<close>

datatype number = NaN | PosInf | NegInf | Fin real

fun num_neg :: "number \<Rightarrow> number" where
  "num_neg NaN = NaN"
| "num_neg PosInf = NegInf"
| "num_neg NegInf = PosInf"
| "num_neg (Fin x) = Fin (- x)"

fun num_add :: "number \<Rightarrow> number \<Rightarrow> number" where
  "num_add (Fin a) (Fin b) = Fin (a + b)"
| "num_add NaN _ = NaN"
| "num_add _ NaN = NaN"
| "num_add PosInf NegInf = NaN"
| "num_add NegInf PosInf = NaN"
| "num_add PosInf _ = PosInf"
| "num_add _ PosInf = PosInf"
| "num_add NegInf _ = NegInf"
| "num_add _ NegInf = NegInf"

definition num_sub :: "number \<Rightarrow> number \<Rightarrow> number" where
  "num_sub a b = num_add a (num_neg b)"

fun num_mul :: "number \<Rightarrow> number \<Rightarrow> number" where
  "num_mul (Fin a) (Fin b) = Fin (a * b)"
| "num_mul NaN _ = NaN"
| "num_mul _ NaN = NaN"
| "num_mul PosInf PosInf = PosInf"
| "num_mul PosInf NegInf = NegInf"
| "num_mul NegInf PosInf = NegInf"
| "num_mul NegInf NegInf = PosInf"
| "num_mul PosInf (Fin b) = (if b = 0 then NaN else if 0 < b then PosInf else NegInf)"
| "num_mul NegInf (Fin b) = (if b = 0 then NaN else if 0 < b then NegInf else PosInf)"
| "num_mul (Fin a) PosInf = (if a = 0 then NaN else if 0 < a then PosInf else NegInf)"
| "num_mul (Fin a) NegInf = (if a = 0 then NaN else if 0 < a then NegInf else PosInf)"

text \<open>
  Division. A zero divisor is read as \<^verbatim>\<open>+0\<close>; the program only ever divides by the
  constants 3600000, 1000 and 100 and by a half-life that has passed the check
  \<^verbatim>\<open>halfLifeHours <= 0\<close>, so that case is never reached.
\<close>

fun num_div :: "number \<Rightarrow> number \<Rightarrow> number" where
  "num_div (Fin a) (Fin b) =
     (if b = 0 then (if a = 0 then NaN else if 0 < a then PosInf else NegInf)
      else Fin (a / b))"
| "num_div NaN _ = NaN"
| "num_div _ NaN = NaN"
| "num_div (Fin a) _ = Fin 0"
| "num_div PosInf (Fin b) = (if 0 \<le> b then PosInf else NegInf)"
| "num_div NegInf (Fin b) = (if 0 \<le> b then NegInf else PosInf)"
| "num_div _ _ = NaN"

fun num_lt :: "number \<Rightarrow> number \<Rightarrow> bool" where
  "num_lt (Fin a) (Fin b) = (a < b)"
| "num_lt NaN _ = False"
| "num_lt _ NaN = False"
| "num_lt PosInf _ = False"
| "num_lt _ NegInf = False"
| "num_lt _ PosInf = True"
| "num_lt NegInf _ = True"

fun num_le :: "number \<Rightarrow> number \<Rightarrow> bool" where
  "num_le NaN _ = False"
| "num_le _ NaN = False"
| "num_le a b = (\<not> num_lt b a)"

text \<open>
  \<^verbatim>\<open>Math.pow(0.5, y)\<close>, the only use of \<^verbatim>\<open>Math.pow\<close> in the program: NaN for a NaN
  exponent, \<^verbatim>\<open>+0\<close> for \<^verbatim>\<open>+Infinity\<close>, \<^verbatim>\<open>+Infinity\<close> for \<^verbatim>\<open>-Infinity\<close>, and the real power
  otherwise (1 for the exponent 0).
\<close>

fun Math_pow_half :: "number \<Rightarrow> number" where
  "Math_pow_half NaN = NaN"
| "Math_pow_half PosInf = Fin 0"
| "Math_pow_half NegInf = PosInf"
| "Math_pow_half (Fin y) = Fin ((1 / 2) powr y)"

text \<open>
  A \<^verbatim>\<open>Date\<close> holds a time value: a whole number of milliseconds since the epoch, or
  NaN (an invalid date). \<^verbatim>\<open>getTime\<close> reads it.
\<close>

datatype Date = InvalidDate | ValidDate int

fun getTime :: "Date \<Rightarrow> number" where
  "getTime InvalidDate = NaN"
| "getTime (ValidDate ms) = Fin (real_of_int ms)"

section \<open>Doses and configuration\<close>

text \<open>
  The interfaces \<^verbatim>\<open>Dose\<close> and \<^verbatim>\<open>CalculatorConfig\<close>. \<open>Unit\<close> is the union
  \<^verbatim>\<open>'mg' | 'ug' | 'g' | 'iu'\<close>, \<open>dose_id\<close> the field \<^verbatim>\<open>id\<close>; the optional \<^verbatim>\<open>targetTime\<close>
  is \<open>None\<close> when it is left out. The error thrown by the program is an \<^verbatim>\<open>Error\<close> with
  its message.
\<close>

datatype Unit = Mg | Ug | G | Iu

record Dose =
  dose_id :: string
  amount :: number
  unit :: Unit
  timestamp :: Date

record CalculatorConfig =
  halfLifeHours :: number
  targetTime :: "Date option"

datatype error = Error string

section \<open>convertToMg\<close>

text \<open>
  The four cases of the \<^verbatim>\<open>switch\<close>, in the order of the source; its \<^verbatim>\<open>default\<close> branch
  is not reached for a value of the union type.
\<close>

fun convertToMg :: "number \<Rightarrow> Unit \<Rightarrow> number" where
  "convertToMg a G = num_mul a (Fin 1000)"
| "convertToMg a Mg = a"
| "convertToMg a Ug = num_div a (Fin 1000)"
| "convertToMg a Iu = a"

section \<open>calculateActiveLevel\<close>

text \<open>
  The callback of \<^verbatim>\<open>doses.reduce\<close>: \<open>h\<close> is \<^verbatim>\<open>halfLifeHours\<close>, \<open>targetTimeMs\<close> the
  evaluation instant in milliseconds, \<open>tot\<close> the accumulator (\<^verbatim>\<open>total\<close>).
\<close>

definition remaining_step :: "number \<Rightarrow> number \<Rightarrow> number \<Rightarrow> Dose \<Rightarrow> number" where
  "remaining_step h targetTimeMs tot dose =
     (let doseTimeMs = getTime (timestamp dose);
          elapsedHours = num_div (num_sub targetTimeMs doseTimeMs) (Fin (1000 * 60 * 60))
      in if num_lt elapsedHours (Fin 0) then tot
         else let amountInMg = convertToMg (amount dose) (unit dose);
                  remainingFromDose =
                    num_mul amountInMg (Math_pow_half (num_div elapsedHours h))
              in num_add tot remainingFromDose)"

text \<open>
  \<open>now\<close> is the value of \<^verbatim>\<open>new Date()\<close> at the call, in milliseconds; it is used only
  when the configuration has no \<^verbatim>\<open>targetTime\<close>.
\<close>

definition calculateActiveLevel :: "Dose list \<Rightarrow> CalculatorConfig \<Rightarrow> int \<Rightarrow> error + number" where
  "calculateActiveLevel doses config now =
     (let h = halfLifeHours config;
          targetTime' = (case targetTime config of None \<Rightarrow> ValidDate now | Some d \<Rightarrow> d)
      in if num_le h (Fin 0) then Inl (Error ''Half-life must be a positive number.'')
         else let targetTimeMs = getTime targetTime'
              in Inr (foldl (remaining_step h targetTimeMs) (Fin 0) doses))"

section \<open>Built-ins used by the component\<close>

text \<open>
  \<^verbatim>\<open>isNaN\<close> on a number.
\<close>

fun isNaN :: "number \<Rightarrow> bool" where
  "isNaN NaN = True"
| "isNaN _ = False"

text \<open>
  \<^verbatim>\<open>Array.prototype.sort(compareFn)\<close>: a stable sort in which \<open>x\<close> comes after \<open>y\<close>
  when \<^verbatim>\<open>compareFn(x, y) > 0\<close>; a NaN result counts as 0. ECMAScript fixes the result
  for a consistent comparison function (the language leaves the order open otherwise), and
  every stable sorting algorithm computes it; the model is a stable insertion sort.
\<close>

fun insert_with :: "('a \<Rightarrow> 'a \<Rightarrow> number) \<Rightarrow> 'a \<Rightarrow> 'a list \<Rightarrow> 'a list" where
  "insert_with compareFn x [] = [x]"
| "insert_with compareFn x (y # ys) =
     (if num_lt (Fin 0) (compareFn x y) then y # insert_with compareFn x ys else x # y # ys)"

definition sort_with :: "('a \<Rightarrow> 'a \<Rightarrow> number) \<Rightarrow> 'a list \<Rightarrow> 'a list" where
  "sort_with compareFn xs = foldr (insert_with compareFn) xs []"






section \<open>addDose\<close>

text \<open>
  The part of the component's state that \<^verbatim>\<open>addDose\<close> reads and writes, and the messages
  shown by \<^verbatim>\<open>alert\<close>, oldest first. (The half-life, which \<^verbatim>\<open>addDose\<close> does not touch, is a
  parameter of \<open>generateChartData\<close> below.)
\<close>

record AppState =
  doses :: "Dose list"
  newDoseAmount :: string
  newDoseUnit :: Unit
  newDoseTime :: string
  alerts :: "string list"

text \<open>
  What the host returns to one call of \<^verbatim>\<open>addDose\<close>: \<^verbatim>\<open>parseFloat(newDoseAmount)\<close>,
  \<^verbatim>\<open>Date.now().toString()\<close>, \<^verbatim>\<open>new Date(newDoseTime)\<close> and
  \<^verbatim>\<open>new Date().toISOString().slice(0, 16)\<close>. \<^verbatim>\<open>parseFloat\<close> returns NaN for a text with no
  numeric prefix and \<^verbatim>\<open>Infinity\<close> for the text \<^verbatim>\<open>Infinity\<close>.
\<close>

record AddDoseEnv =
  parsedAmount :: number
  idText :: string
  parsedTime :: Date
  nowText :: string

text \<open>
  The comparison function of the sort in \<^verbatim>\<open>addDose\<close>.
\<close>

definition by_timestamp :: "Dose \<Rightarrow> Dose \<Rightarrow> number" where
  "by_timestamp a b = num_sub (getTime (timestamp a)) (getTime (timestamp b))"

definition addDose :: "AddDoseEnv \<Rightarrow> AppState \<Rightarrow> AppState" where
  "addDose env st =
     (let amount' = parsedAmount env
      in if isNaN amount' \<or> num_le amount' (Fin 0)
         then st\<lparr>alerts := alerts st @ [''Please enter a valid amount'']\<rparr>
         else let newDose = \<lparr>dose_id = idText env, amount = amount', unit = newDoseUnit st,
                             timestamp = parsedTime env\<rparr>
              in st\<lparr>doses := sort_with by_timestamp
                                 (doses st @ [newDose]),
                    newDoseAmount := [],
                    newDoseTime := nowText env\<rparr>)"

section \<open>generateChartData\<close>




section \<open>Auxiliary notions for the statements\<close>

text \<open>
  What one dose adds to the total: the callback started from 0.
\<close>

definition contribution :: "number \<Rightarrow> number \<Rightarrow> Dose \<Rightarrow> number" where
  "contribution h targetTimeMs dose = remaining_step h targetTimeMs (Fin 0) dose"

text \<open>
  On finite amounts, valid dates and a finite half-life the program computes with real
  numbers only: \<open>mg\<close> is the conversion, \<open>decay\<close> the share of an amount \<open>m\<close> taken at
  \<open>td\<close> that is left at \<open>tt\<close> (instants in milliseconds, the half-life \<open>h\<close> in hours).
\<close>

fun mg :: "real \<Rightarrow> Unit \<Rightarrow> real" where
  "mg a G = a * 1000"
| "mg a Mg = a"
| "mg a Ug = a / 1000"
| "mg a Iu = a"

definition decay :: "real \<Rightarrow> int \<Rightarrow> int \<Rightarrow> real \<Rightarrow> real" where
  "decay h tt td m =
     (if tt < td then 0 else m * (1 / 2) powr (real_of_int (tt - td) / 3600000 / h))"

definition finite_dose :: "Dose \<Rightarrow> bool" where
  "finite_dose d = (case amount d of Fin a \<Rightarrow> (case timestamp d of ValidDate t \<Rightarrow> True | _ \<Rightarrow> False) | _ \<Rightarrow> False)"

definition decay_of :: "real \<Rightarrow> int \<Rightarrow> Dose \<Rightarrow> real" where
  "decay_of h tt d =
     (case amount d of Fin a \<Rightarrow> (case timestamp d of ValidDate td \<Rightarrow> decay h tt td (mg a (unit d)) | _ \<Rightarrow> 0) | _ \<Rightarrow> 0)"

text \<open>
  The evaluation instant of a call: the configured \<^verbatim>\<open>targetTime\<close>, or the current time
  when there is none.
\<close>

definition evaluationInstant :: "CalculatorConfig \<Rightarrow> int \<Rightarrow> Date" where
  "evaluationInstant config now = (case targetTime config of None \<Rightarrow> ValidDate now | Some d \<Rightarrow> d)"


text \<open>
  The time value of a valid date, and the instants of the chart as real numbers:
  \<open>chart_start\<close> and \<open>chart_end\<close> are \<^verbatim>\<open>startTime\<close> and \<^verbatim>\<open>endTime\<close>, \<open>grid_point\<close> is
  \<^verbatim>\<open>startTime + i * timeStep\<close>, and \<open>chart_instants\<close> collects the dose timestamps and the
  grid points for \<open>i = 0, \<dots>, 100\<close>.
\<close>

fun date_ms :: "Date \<Rightarrow> int" where
  "date_ms (ValidDate t) = t"
| "date_ms InvalidDate = 0"








section \<open>Lemmas\<close>

subsection \<open>Arithmetic on numbers\<close>



lemma num_add_zero_right: "num_add a (Fin 0) = a"
  by (cases a) simp_all

lemma num_add_zero_left: "num_add (Fin 0) a = a"
  by (cases a) simp_all

lemma num_mul_one_right: "num_mul a (Fin 1) = a"
  by (cases a) simp_all

subsection \<open>The reduction of calculateActiveLevel\<close>

lemma remaining_step_add:
  "remaining_step h t tot d = num_add tot (contribution h t d)"
  by (simp add: remaining_step_def contribution_def Let_def num_add_zero_right num_add_zero_left)



subsection \<open>Finite amounts and valid dates\<close>

lemma convertToMg_Fin: "convertToMg (Fin a) u = Fin (mg a u)"
  by (cases u) simp_all

lemma contribution_finite:
  assumes "0 < h" "amount d = Fin a" "timestamp d = ValidDate td"
  shows "contribution (Fin h) (Fin (real_of_int tt)) d = Fin (decay h tt td (mg a (unit d)))"
proof (cases "tt < td")
  case True
  then have "(real_of_int tt - real_of_int td) / 3600000 < 0" by simp
  with True assms show ?thesis
    by (simp add: contribution_def remaining_step_def num_sub_def decay_def Let_def)
next
  case False
  then have "\<not> (real_of_int tt - real_of_int td) / 3600000 < 0" by simp
  with False assms show ?thesis
    by (simp add: contribution_def remaining_step_def num_sub_def decay_def Let_def convertToMg_Fin)
qed

lemma contribution_decay_of:
  assumes "0 < h" "finite_dose d"
  shows "contribution (Fin h) (Fin (real_of_int tt)) d = Fin (decay_of h tt d)"
proof -
  from assms(2) obtain a td where "amount d = Fin a" "timestamp d = ValidDate td"
    by (auto simp: finite_dose_def split: number.splits Date.splits)
  then show ?thesis using contribution_finite[OF assms(1), of d a td tt]
    by (simp add: decay_of_def)
qed

lemma foldl_finite:
  assumes "0 < h" "\<forall>d\<in>set ds. finite_dose d"
  shows "foldl (remaining_step (Fin h) (Fin (real_of_int tt))) (Fin 0) ds
         = Fin (\<Sum>d\<leftarrow>ds. decay_of h tt d)"
  using assms(2)
proof (induction ds rule: rev_induct)
  case Nil show ?case by simp
next
  case (snoc d ds)
  then show ?case
    by (simp add: remaining_step_add contribution_decay_of[OF assms(1)])
qed


lemma calc_unfold:
  "calculateActiveLevel ds config now =
     (if num_le (halfLifeHours config) (Fin 0) then Inl (Error ''Half-life must be a positive number.'')
      else Inr (foldl (remaining_step (halfLifeHours config) (getTime (evaluationInstant config now))) (Fin 0) ds))"
  by (simp add: calculateActiveLevel_def evaluationInstant_def Let_def)

lemma calc_finite':
  assumes "halfLifeHours config = Fin h" "0 < h" "evaluationInstant config now = ValidDate tt"
    "\<forall>d\<in>set ds. finite_dose d"
  shows "calculateActiveLevel ds config now = Inr (Fin (\<Sum>d\<leftarrow>ds. decay_of h tt d))"
  using assms by (simp add: calc_unfold foldl_finite)

lemma future_contribution:
  assumes "timestamp d = ValidDate td" "tt < td"
  shows "remaining_step h (Fin (real_of_int tt)) tot d = tot"
proof -
  from assms(2) have "(real_of_int tt - real_of_int td) / 3600000 < 0" by simp
  then show ?thesis using assms(1)
    by (simp add: remaining_step_def num_sub_def Let_def)
qed

subsection \<open>Non-negative levels\<close>







subsection \<open>Reordering the doses\<close>


subsection \<open>Decay over time\<close>



subsection \<open>The sort\<close>

lemma insert_with_insort_key:
  assumes "\<forall>y\<in>set ys. num_lt (Fin 0) (c x y) = (key y < key x)"
  shows "insert_with c x ys = insort_key key x ys"
  using assms by (induction ys) (auto simp: not_less)

lemma sort_with_sort_key:
  fixes key :: "'a \<Rightarrow> 'k::linorder"
  assumes "\<forall>x\<in>set xs. \<forall>y\<in>set xs. num_lt (Fin 0) (c x y) = (key y < key x)"
  shows "sort_with c xs = sort_key key xs"
  using assms
proof (induction xs)
  case Nil show ?case by (simp add: sort_with_def)
next
  case (Cons x xs)
  then have ih: "sort_with c xs = sort_key key xs" by simp
  have "\<forall>y\<in>set (sort_key key xs). num_lt (Fin 0) (c x y) = (key y < key x)"
    using Cons.prems by simp
  then have "insert_with c x (sort_key key xs) = insort_key key x (sort_key key xs)"
    by (rule insert_with_insort_key)
  then show ?case using ih by (simp add: sort_with_def)
qed

lemma mset_insert_with: "mset (insert_with c x ys) = add_mset x (mset ys)"
  by (induction ys) auto

lemma mset_sort_with: "mset (sort_with c xs) = mset xs"
  by (induction xs) (simp_all add: sort_with_def mset_insert_with)

subsection \<open>Adding a dose\<close>

lemma by_timestamp_valid:
  assumes "timestamp a = ValidDate s" "timestamp b = ValidDate t"
  shows "num_lt (Fin 0) (by_timestamp a b) = (date_ms (timestamp b) < date_ms (timestamp a))"
  using assms by (simp add: by_timestamp_def num_sub_def)

lemma sort_by_timestamp:
  assumes "\<forall>d\<in>set ds. \<exists>t. timestamp d = ValidDate t"
  shows "sort_with by_timestamp ds = sort_key (\<lambda>d. date_ms (timestamp d)) ds"
proof (rule sort_with_sort_key, intro ballI)
  fix x y assume "x \<in> set ds" "y \<in> set ds"
  with assms obtain s t where "timestamp x = ValidDate s" "timestamp y = ValidDate t" by blast
  then show "num_lt (Fin 0) (by_timestamp x y) = (date_ms (timestamp y) < date_ms (timestamp x))"
    by (rule by_timestamp_valid)
qed

lemma addDose_rejected:
  assumes "isNaN (parsedAmount env) \<or> num_le (parsedAmount env) (Fin 0)"
  shows "addDose env st = st\<lparr>alerts := alerts st @ [''Please enter a valid amount'']\<rparr>"
  using assms by (simp add: addDose_def)

lemma addDose_accepted:
  assumes "parsedAmount env = Fin x" "0 < x"
  shows "addDose env st =
         st\<lparr>doses := sort_with by_timestamp
                        (doses st @ [\<lparr>dose_id = idText env, amount = Fin x, unit = newDoseUnit st,
                                       timestamp = parsedTime env\<rparr>]),
            newDoseAmount := [], newDoseTime := nowText env\<rparr>"
  using assms by (simp add: addDose_def by_timestamp_def[abs_def])

subsection \<open>The instants of the chart\<close>





















subsection \<open>The range of the chart\<close>














subsection \<open>Order, rounding and the records of the chart\<close>






section \<open>The claims\<close>

text \<open>
  Claim C1. A single dose of \<open>A\<close> mg taken at instant \<open>t\<close>, evaluated one half-life
  \<open>h > 0\<close> later, has the level \<open>A / 2\<close>. The evaluation instant is a \<^verbatim>\<open>Date\<close>, so
  the half-life is a whole number \<open>k\<close> of milliseconds (\<open>k = h * 3600000\<close>); the instant
  may be given in the configuration or be the current time. Arithmetic is exact in this
  model, so the tolerance of the floating-point result does not appear.
\<close>

theorem half_life_halves:
  assumes "0 < h" and "real_of_int k = h * 3600000"
    and "halfLifeHours config = Fin h" and "evaluationInstant config now = ValidDate (t + k)"
  shows "calculateActiveLevel
           [\<lparr>dose_id = i, amount = Fin A, unit = Mg, timestamp = ValidDate t\<rparr>] config now
         = Inr (Fin (A / 2))"
proof -
  let ?d = "\<lparr>dose_id = i, amount = Fin A, unit = Mg, timestamp = ValidDate t\<rparr>"
  have fin: "\<forall>d\<in>set [?d]. finite_dose d" by (simp add: finite_dose_def)
  from assms(1,2) have "0 < real_of_int k" by simp
  then have k: "0 < k" by simp
  have "real_of_int k / 3600000 / h = 1" using assms(1,2) by simp
  then have "decay_of h (t + k) ?d = A / 2"
    using k by (simp add: decay_of_def decay_def)
  then show ?thesis
    using calc_finite'[OF assms(3) assms(1) assms(4) fin] by simp
qed

theorem half_life_halves_witness:
  "(0::real) < 24 \<and> real_of_int 86400000 = (24::real) * 3600000
   \<and> calculateActiveLevel
        [\<lparr>dose_id = ''d1'', amount = Fin 100, unit = Mg, timestamp = ValidDate 0\<rparr>]
        \<lparr>halfLifeHours = Fin 24, targetTime = Some (ValidDate 86400000)\<rparr> 0 = Inr (Fin 50)"
  using half_life_halves[of 24 86400000
      "\<lparr>halfLifeHours = Fin 24, targetTime = Some (ValidDate 86400000)\<rparr>" 0 0 "''d1''" 100]
  by (simp add: evaluationInstant_def)

text \<open>
  Claim C2. \<^verbatim>\<open>calculateActiveLevel\<close> raises its error exactly when
  \<^verbatim>\<open>halfLifeHours <= 0\<close>; a raise carries no level, and every other call returns one:
  in particular every call with \<^verbatim>\<open>halfLifeHours > 0\<close>, whatever the doses.
\<close>

theorem invalid_configuration_iff:
  "(calculateActiveLevel ds config now = Inl (Error ''Half-life must be a positive number.''))
     = num_le (halfLifeHours config) (Fin 0)
   \<and> (\<exists>e. calculateActiveLevel ds config now = Inl e) = num_le (halfLifeHours config) (Fin 0)
   \<and> (\<exists>v. calculateActiveLevel ds config now = Inr v) = (\<not> num_le (halfLifeHours config) (Fin 0))
   \<and> (num_lt (Fin 0) (halfLifeHours config) \<longrightarrow> (\<exists>v. calculateActiveLevel ds config now = Inr v))"
proof -
  have "num_lt (Fin 0) (halfLifeHours config) \<Longrightarrow> \<not> num_le (halfLifeHours config) (Fin 0)"
    by (cases "halfLifeHours config") simp_all
  then show ?thesis by (auto simp: calc_unfold)
qed

theorem invalid_configuration_iff_witness:
  "calculateActiveLevel [] \<lparr>halfLifeHours = Fin 0, targetTime = None\<rparr> 0
     = Inl (Error ''Half-life must be a positive number.'')
   \<and> num_lt (Fin 0) (Fin 200)
   \<and> (\<exists>v. calculateActiveLevel
          [\<lparr>dose_id = ''d1'', amount = Fin 125, unit = Ug, timestamp = ValidDate 0\<rparr>]
          \<lparr>halfLifeHours = Fin 200, targetTime = None\<rparr> 0 = Inr v)"
  using invalid_configuration_iff[of "[]" "\<lparr>halfLifeHours = Fin 0, targetTime = None\<rparr>" 0]
    invalid_configuration_iff[of
      "[\<lparr>dose_id = ''d1'', amount = Fin 125, unit = Ug, timestamp = ValidDate 0\<rparr>]"
      "\<lparr>halfLifeHours = Fin 200, targetTime = None\<rparr>" 0]
  by simp

text \<open>
  Claim C3. A dose whose timestamp is strictly after the evaluation instant contributes
  nothing: taking it out of the list, wherever it stands, leaves the result unchanged, and
  alone it gives the level 0 under a valid configuration.
\<close>

theorem future_dose_contributes_nothing:
  assumes "evaluationInstant config now = ValidDate tt" and "timestamp d = ValidDate td"
    and "tt < td"
  shows "calculateActiveLevel (xs @ d # ys) config now = calculateActiveLevel (xs @ ys) config now
       \<and> (\<not> num_le (halfLifeHours config) (Fin 0) \<longrightarrow>
            calculateActiveLevel [d] config now = Inr (Fin 0))"
  using assms by (simp add: calc_unfold future_contribution)

theorem future_dose_contributes_nothing_witness:
  "(0::int) < 3600000
   \<and> calculateActiveLevel
        ([\<lparr>dose_id = ''d1'', amount = Fin 100, unit = Mg, timestamp = ValidDate 0\<rparr>]
         @ \<lparr>dose_id = ''d2'', amount = Fin 40, unit = G, timestamp = ValidDate 3600000\<rparr> # [])
        \<lparr>halfLifeHours = Fin 24, targetTime = Some (ValidDate 0)\<rparr> 0
     = calculateActiveLevel
        ([\<lparr>dose_id = ''d1'', amount = Fin 100, unit = Mg, timestamp = ValidDate 0\<rparr>] @ [])
        \<lparr>halfLifeHours = Fin 24, targetTime = Some (ValidDate 0)\<rparr> 0
   \<and> calculateActiveLevel
        [\<lparr>dose_id = ''d2'', amount = Fin 40, unit = G, timestamp = ValidDate 3600000\<rparr>]
        \<lparr>halfLifeHours = Fin 24, targetTime = Some (ValidDate 0)\<rparr> 0 = Inr (Fin 0)"
  using future_dose_contributes_nothing[of
      "\<lparr>halfLifeHours = Fin 24, targetTime = Some (ValidDate 0)\<rparr>" 0 0
      "\<lparr>dose_id = ''d2'', amount = Fin 40, unit = G, timestamp = ValidDate 3600000\<rparr>" 3600000
      "[\<lparr>dose_id = ''d1'', amount = Fin 100, unit = Mg, timestamp = ValidDate 0\<rparr>]" "[]"]
  by (simp add: evaluationInstant_def)




text \<open>
  Claim C5. \<^verbatim>\<open>convertToMg\<close> leaves mg and IU amounts unchanged, multiplies grams by 1000
  and divides micrograms by 1000; so 1000 \<open>\<mu>\<close>g, 1 mg and 0.001 g all convert to 1. The
  function is total: it has no error result.
\<close>

theorem convertToMg_table:
  "convertToMg a Mg = a
   \<and> convertToMg a G = num_mul a (Fin 1000)
   \<and> convertToMg a Ug = num_div a (Fin 1000)
   \<and> convertToMg a Iu = a
   \<and> convertToMg (Fin x) G = Fin (x * 1000)
   \<and> convertToMg (Fin x) Ug = Fin (x / 1000)
   \<and> convertToMg (Fin 1000) Ug = Fin 1
   \<and> convertToMg (Fin 1) Mg = Fin 1
   \<and> convertToMg (Fin (1 / 1000)) G = Fin 1"
  by simp

text \<open>
  Claim C6. A single dose evaluated at its own timestamp, under a half-life greater than 0,
  has the level of its amount converted to mg: the elapsed time 0 is not negative, so the
  dose is counted, with the factor \<^verbatim>\<open>Math.pow(0.5, 0) = 1\<close>.
\<close>

theorem level_at_own_timestamp:
  assumes "num_lt (Fin 0) (halfLifeHours config)" and "timestamp d = ValidDate t"
    and "evaluationInstant config now = ValidDate t"
  shows "calculateActiveLevel [d] config now = Inr (convertToMg (amount d) (unit d))"
proof -
  from assms(1) have nle: "\<not> num_le (halfLifeHours config) (Fin 0)"
    by (cases "halfLifeHours config") simp_all
  from assms(1) have "num_div (Fin 0) (halfLifeHours config) = Fin 0"
    by (cases "halfLifeHours config") simp_all
  then have "remaining_step (halfLifeHours config) (Fin (real_of_int t)) (Fin 0) d
        = convertToMg (amount d) (unit d)"
    using assms(2)
    by (simp add: remaining_step_def num_sub_def Let_def num_mul_one_right num_add_zero_left)
  then show ?thesis using nle assms(3) by (simp add: calc_unfold)
qed

theorem level_at_own_timestamp_witness:
  "num_lt (Fin 0) (Fin 24)
   \<and> calculateActiveLevel
        [\<lparr>dose_id = ''d1'', amount = Fin 2, unit = G, timestamp = ValidDate 7\<rparr>]
        \<lparr>halfLifeHours = Fin 24, targetTime = Some (ValidDate 7)\<rparr> 0 = Inr (Fin 2000)"
  using level_at_own_timestamp[of "\<lparr>halfLifeHours = Fin 24, targetTime = Some (ValidDate 7)\<rparr>"
      "\<lparr>dose_id = ''d1'', amount = Fin 2, unit = G, timestamp = ValidDate 7\<rparr>" 7 0]
  by (simp add: evaluationInstant_def)

text \<open>
  Claim C9 as stated also covers the half-life 0. There the check comes before the
  reduction, and the call with the empty list raises instead of returning 0.
\<close>

theorem empty_collection_counterexample:
  "calculateActiveLevel [] \<lparr>halfLifeHours = Fin 0, targetTime = None\<rparr> 0
     = Inl (Error ''Half-life must be a positive number.'')
   \<and> calculateActiveLevel [] \<lparr>halfLifeHours = Fin 0, targetTime = None\<rparr> 0 \<noteq> Inr (Fin 0)"
  by (simp add: calculateActiveLevel_def)

text \<open>
  Claim C9, amended. For the empty dose list \<^verbatim>\<open>calculateActiveLevel\<close> returns 0 at every
  evaluation instant and for every half-life that passes the check, that is, whenever
  \<^verbatim>\<open>halfLifeHours <= 0\<close> is false; when it is true the call raises the error.
\<close>

theorem empty_collection_level:
  "(\<not> num_le (halfLifeHours config) (Fin 0) \<longrightarrow>
      calculateActiveLevel [] config now = Inr (Fin 0))
   \<and> (num_le (halfLifeHours config) (Fin 0) \<longrightarrow>
      calculateActiveLevel [] config now = Inl (Error ''Half-life must be a positive number.''))"
  by (simp add: calc_unfold)

theorem empty_collection_level_witness:
  "\<not> num_le (Fin 24) (Fin 0)
   \<and> calculateActiveLevel [] \<lparr>halfLifeHours = Fin 24, targetTime = None\<rparr> 5 = Inr (Fin 0)
   \<and> num_le (Fin (- 1)) (Fin 0)
   \<and> calculateActiveLevel [] \<lparr>halfLifeHours = Fin (- 1), targetTime = None\<rparr> 5
       = Inl (Error ''Half-life must be a positive number.'')"
  using empty_collection_level[of "\<lparr>halfLifeHours = Fin 24, targetTime = None\<rparr>" 5]
    empty_collection_level[of "\<lparr>halfLifeHours = Fin (- 1), targetTime = None\<rparr>" 5]
  by simp



text \<open>
  Claim C7 as stated fails for an amount that parses to \<^verbatim>\<open>Infinity\<close>: it is neither NaN
  nor \<open>\<le> 0\<close>, so no alert is shown and the dose enters the collection; and since the
  collection is sorted by timestamp, the new dose stands before the later one, not at the
  end.
\<close>

theorem addDose_counterexample:
  "doses (addDose \<lparr>parsedAmount = PosInf, idText = ''1700000000000'', parsedTime = ValidDate 0,
                    nowText = ''2026-01-01T00:00''\<rparr>
            \<lparr>doses = [\<lparr>dose_id = ''d1'', amount = Fin 100, unit = Mg, timestamp = ValidDate 10\<rparr>],
             newDoseAmount = ''Infinity'', newDoseUnit = Mg, newDoseTime = ''1970-01-01T00:00'',
             alerts = []\<rparr>)
     = [\<lparr>dose_id = ''1700000000000'', amount = PosInf, unit = Mg, timestamp = ValidDate 0\<rparr>,
        \<lparr>dose_id = ''d1'', amount = Fin 100, unit = Mg, timestamp = ValidDate 10\<rparr>]
   \<and> alerts (addDose \<lparr>parsedAmount = PosInf, idText = ''1700000000000'', parsedTime = ValidDate 0,
                    nowText = ''2026-01-01T00:00''\<rparr>
            \<lparr>doses = [\<lparr>dose_id = ''d1'', amount = Fin 100, unit = Mg, timestamp = ValidDate 10\<rparr>],
             newDoseAmount = ''Infinity'', newDoseUnit = Mg, newDoseTime = ''1970-01-01T00:00'',
             alerts = []\<rparr>) = []"
  by (simp add: addDose_def sort_with_def by_timestamp_def num_sub_def)

text \<open>
  Claim C7, amended. An amount that parses to NaN or to a value \<open>\<le> 0\<close> is rejected: the
  alert is shown and nothing else changes, so the collection is the same. A positive
  finite amount is accepted without an alert: the collection then holds the old ds and
  the new one, and when all timestamps are valid dates it is the old list with the new
  dose appended, stably sorted by timestamp.
\<close>

theorem addDose_validation:
  "(isNaN (parsedAmount env) \<or> num_le (parsedAmount env) (Fin 0) \<longrightarrow>
      addDose env st = st\<lparr>alerts := alerts st @ [''Please enter a valid amount'']\<rparr>
      \<and> doses (addDose env st) = doses st)
   \<and> (\<forall>x. parsedAmount env = Fin x \<and> 0 < x \<longrightarrow>
        alerts (addDose env st) = alerts st
        \<and> mset (doses (addDose env st))
            = add_mset \<lparr>dose_id = idText env, amount = Fin x, unit = newDoseUnit st,
                         timestamp = parsedTime env\<rparr> (mset (doses st))
        \<and> ((\<forall>d\<in>set (doses st). \<exists>t. timestamp d = ValidDate t) \<and> (\<exists>t. parsedTime env = ValidDate t) \<longrightarrow>
             doses (addDose env st)
               = sort_key (\<lambda>d. date_ms (timestamp d))
                   (doses st @ [\<lparr>dose_id = idText env, amount = Fin x, unit = newDoseUnit st,
                                  timestamp = parsedTime env\<rparr>])
             \<and> sorted (map (\<lambda>d. date_ms (timestamp d)) (doses (addDose env st)))))"
proof -
  have rej: "isNaN (parsedAmount env) \<or> num_le (parsedAmount env) (Fin 0) \<longrightarrow>
      addDose env st = st\<lparr>alerts := alerts st @ [''Please enter a valid amount'']\<rparr>
      \<and> doses (addDose env st) = doses st"
    by (simp add: addDose_rejected)
  have acc: "alerts (addDose env st) = alerts st
        \<and> mset (doses (addDose env st))
            = add_mset \<lparr>dose_id = idText env, amount = Fin x, unit = newDoseUnit st,
                         timestamp = parsedTime env\<rparr> (mset (doses st))
        \<and> ((\<forall>d\<in>set (doses st). \<exists>t. timestamp d = ValidDate t) \<and> (\<exists>t. parsedTime env = ValidDate t) \<longrightarrow>
             doses (addDose env st)
               = sort_key (\<lambda>d. date_ms (timestamp d))
                   (doses st @ [\<lparr>dose_id = idText env, amount = Fin x, unit = newDoseUnit st,
                                  timestamp = parsedTime env\<rparr>])
             \<and> sorted (map (\<lambda>d. date_ms (timestamp d)) (doses (addDose env st))))"
    if x: "parsedAmount env = Fin x" "0 < x" for x
  proof -
    let ?new = "\<lparr>dose_id = idText env, amount = Fin x, unit = newDoseUnit st,
                  timestamp = parsedTime env\<rparr>"
    note eq = addDose_accepted[OF x, of st]
    have a: "alerts (addDose env st) = alerts st" by (simp add: eq)
    have m: "mset (doses (addDose env st)) = add_mset ?new (mset (doses st))"
      by (simp add: eq mset_sort_with)
    have s: "doses (addDose env st) = sort_key (\<lambda>d. date_ms (timestamp d)) (doses st @ [?new])
             \<and> sorted (map (\<lambda>d. date_ms (timestamp d)) (doses (addDose env st)))"
      if v: "\<forall>d\<in>set (doses st). \<exists>t. timestamp d = ValidDate t" "\<exists>t. parsedTime env = ValidDate t"
    proof -
      from v have "\<forall>d\<in>set (doses st @ [?new]). \<exists>t. timestamp d = ValidDate t" by simp
      from sort_by_timestamp[OF this]
      have "doses (addDose env st) = sort_key (\<lambda>d. date_ms (timestamp d)) (doses st @ [?new])"
        by (simp add: eq)
      then show ?thesis by simp
    qed
    from a m s show ?thesis by blast
  qed
  from rej acc show ?thesis by blast
qed

theorem addDose_validation_witness:
  "isNaN NaN
   \<and> doses (addDose \<lparr>parsedAmount = NaN, idText = ''1700000000000'', parsedTime = ValidDate 0,
                      nowText = ''2026-01-01T00:00''\<rparr>
              \<lparr>doses = [\<lparr>dose_id = ''d1'', amount = Fin 100, unit = Mg, timestamp = ValidDate 10\<rparr>],
               newDoseAmount = ''abc'', newDoseUnit = Mg, newDoseTime = ''1970-01-01T00:00'',
               alerts = []\<rparr>)
       = [\<lparr>dose_id = ''d1'', amount = Fin 100, unit = Mg, timestamp = ValidDate 10\<rparr>]
   \<and> alerts (addDose \<lparr>parsedAmount = NaN, idText = ''1700000000000'', parsedTime = ValidDate 0,
                      nowText = ''2026-01-01T00:00''\<rparr>
              \<lparr>doses = [\<lparr>dose_id = ''d1'', amount = Fin 100, unit = Mg, timestamp = ValidDate 10\<rparr>],
               newDoseAmount = ''abc'', newDoseUnit = Mg, newDoseTime = ''1970-01-01T00:00'',
               alerts = []\<rparr>)
       = [''Please enter a valid amount'']
   \<and> (0::real) < 5
   \<and> doses (addDose \<lparr>parsedAmount = Fin 5, idText = ''1700000000000'', parsedTime = ValidDate 0,
                      nowText = ''2026-01-01T00:00''\<rparr>
              \<lparr>doses = [\<lparr>dose_id = ''d1'', amount = Fin 100, unit = Mg, timestamp = ValidDate 10\<rparr>],
               newDoseAmount = ''5'', newDoseUnit = Mg, newDoseTime = ''1970-01-01T00:00'',
               alerts = []\<rparr>)
       = [\<lparr>dose_id = ''1700000000000'', amount = Fin 5, unit = Mg, timestamp = ValidDate 0\<rparr>,
          \<lparr>dose_id = ''d1'', amount = Fin 100, unit = Mg, timestamp = ValidDate 10\<rparr>]"
  using addDose_validation[of
      "\<lparr>parsedAmount = NaN, idText = ''1700000000000'', parsedTime = ValidDate 0,
        nowText = ''2026-01-01T00:00''\<rparr>"
      "\<lparr>doses = [\<lparr>dose_id = ''d1'', amount = Fin 100, unit = Mg, timestamp = ValidDate 10\<rparr>],
        newDoseAmount = ''abc'', newDoseUnit = Mg, newDoseTime = ''1970-01-01T00:00'',
        alerts = []\<rparr>"]
    addDose_validation[of
      "\<lparr>parsedAmount = Fin 5, idText = ''1700000000000'', parsedTime = ValidDate 0,
        nowText = ''2026-01-01T00:00''\<rparr>"
      "\<lparr>doses = [\<lparr>dose_id = ''d1'', amount = Fin 100, unit = Mg, timestamp = ValidDate 10\<rparr>],
        newDoseAmount = ''5'', newDoseUnit = Mg, newDoseTime = ''1970-01-01T00:00'',
        alerts = []\<rparr>"]
  by simp




end
